theory Spec2Isabelle
  imports Main
begin

section \<open>JavaScript strings and regular expressions (utils/validate.js)\<close>

text \<open>
  A JavaScript string is a sequence of UTF-16 code units, and a regular expression
  without the \<open>u\<close> flag matches code unit by code unit. A code unit is modelled by its
  number; an ASCII literal of the source is written with \<open>js_string\<close>.
\<close>

type_synonym code_unit = nat
type_synonym js_string = "code_unit list"

definition js_string :: "string \<Rightarrow> js_string" where
  "js_string cs = map of_char cs"

text \<open>
  The code units matched by \<open>\s\<close> (WhiteSpace and LineTerminator of ECMAScript) and
  the line terminators, which \<open>.\<close> does not match.
\<close>

definition white_space :: "code_unit list" where
  "white_space = [9, 10, 11, 12, 13, 32, 160, 5760,
     8192, 8193, 8194, 8195, 8196, 8197, 8198, 8199, 8200, 8201, 8202,
     8232, 8233, 8239, 8287, 12288, 65279]"

definition line_terminator :: "code_unit list" where
  "line_terminator = [10, 13, 8232, 8233]"

text \<open>
  The members of a character class \<open>[...]\<close>: a single character, a range \<open>a-z\<close>, or
  the escape \<open>\s\<close>.
\<close>

datatype class_item = One char | Range char char | Space

fun in_item :: "code_unit \<Rightarrow> class_item \<Rightarrow> bool" where
  "in_item u (One c) = (u = of_char c)"
| "in_item u (Range lo hi) = (of_char lo \<le> u \<and> u \<le> of_char hi)"
| "in_item u Space = (u \<in> set white_space)"

text \<open>
  The patterns of validate.js use literals, classes (\<open>Class False\<close>) and negated classes
  (\<open>Class True\<close>), the dot, sequence, alternation and the quantifiers \<open>*\<close>, \<open>+\<close>,
  \<open>?\<close>, \<open>{m,n}\<close> and \<open>{m,}\<close>. Groups only bracket (no back-reference reads a capture),
  so they are the tree structure. \<open>Never\<close> matches nothing; it is what is left of a
  pattern once an input character has ruled it out.
\<close>

datatype regex =
    Never
  | Empty
  | Lit char
  | Class bool "class_item list"
  | Dot
  | Seq regex regex
  | Alt regex regex
  | Star regex

definition Plus :: "regex \<Rightarrow> regex" where
  "Plus r = Seq r (Star r)"

definition Opt :: "regex \<Rightarrow> regex" where
  "Opt r = Alt r Empty"

fun Exactly :: "nat \<Rightarrow> regex \<Rightarrow> regex" where
  "Exactly 0 r = Empty"
| "Exactly (Suc n) r = Seq r (Exactly n r)"

fun UpTo :: "nat \<Rightarrow> regex \<Rightarrow> regex" where
  "UpTo 0 r = Empty"
| "UpTo (Suc n) r = Opt (Seq r (UpTo n r))"

definition Between :: "nat \<Rightarrow> nat \<Rightarrow> regex \<Rightarrow> regex" where
  "Between m n r = Seq (Exactly m r) (UpTo (n - m) r)"

definition AtLeast :: "nat \<Rightarrow> regex \<Rightarrow> regex" where
  "AtLeast m r = Seq (Exactly m r) (Star r)"

fun Seqs :: "regex list \<Rightarrow> regex" where
  "Seqs [] = Empty"
| "Seqs [r] = r"
| "Seqs (r # rs) = Seq r (Seqs rs)"

text \<open>
  Matching by derivatives: \<open>deriv u r\<close> is what remains to be matched of \<open>r\<close> after
  the code unit \<open>u\<close>, and a pattern matches the empty rest when it is \<open>nullable\<close>.
  \<open>seq\<close> and \<open>alt\<close> build a sequence and an alternation and drop the parts that can
  no longer match.
\<close>

fun nullable :: "regex \<Rightarrow> bool" where
  "nullable Never = False"
| "nullable Empty = True"
| "nullable (Lit c) = False"
| "nullable (Class neg items) = False"
| "nullable Dot = False"
| "nullable (Seq r s) = (nullable r \<and> nullable s)"
| "nullable (Alt r s) = (nullable r \<or> nullable s)"
| "nullable (Star r) = True"

fun seq :: "regex \<Rightarrow> regex \<Rightarrow> regex" where
  "seq Never s = Never"
| "seq Empty s = s"
| "seq r s = Seq r s"

fun alt :: "regex \<Rightarrow> regex \<Rightarrow> regex" where
  "alt Never s = s"
| "alt r Never = r"
| "alt r s = Alt r s"

definition in_class :: "code_unit \<Rightarrow> bool \<Rightarrow> class_item list \<Rightarrow> bool" where
  "in_class u neg items = (list_ex (in_item u) items \<noteq> neg)"

fun deriv :: "code_unit \<Rightarrow> regex \<Rightarrow> regex" where
  "deriv u Never = Never"
| "deriv u Empty = Never"
| "deriv u (Lit c) = (if u = of_char c then Empty else Never)"
| "deriv u (Class neg items) = (if in_class u neg items then Empty else Never)"
| "deriv u Dot = (if u \<in> set line_terminator then Never else Empty)"
| "deriv u (Seq r s) =
     (if nullable r then alt (seq (deriv u r) s) (deriv u s) else seq (deriv u r) s)"
| "deriv u (Alt r s) = alt (deriv u r) (deriv u s)"
| "deriv u (Star r) = seq (deriv u r) (Star r)"

fun derivs :: "js_string \<Rightarrow> regex \<Rightarrow> regex" where
  "derivs [] r = r"
| "derivs (u # us) r = derivs us (deriv u r)"

definition matches :: "regex \<Rightarrow> js_string \<Rightarrow> bool" where
  "matches r s = nullable (derivs s r)"

text \<open>
  \<open>may_read r u\<close>: some literal, class or dot of \<open>r\<close> accepts the code unit \<open>u\<close>.
  A string holding a code unit that no part of the pattern accepts cannot match.
\<close>

fun may_read :: "regex \<Rightarrow> code_unit \<Rightarrow> bool" where
  "may_read Never u = False"
| "may_read Empty u = False"
| "may_read (Lit c) u = (u = of_char c)"
| "may_read (Class neg items) u = in_class u neg items"
| "may_read Dot u = (u \<notin> set line_terminator)"
| "may_read (Seq r s) u = (may_read r u \<or> may_read s u)"
| "may_read (Alt r s) u = (may_read r u \<or> may_read s u)"
| "may_read (Star r) u = may_read r u"

text \<open>
  The strings a pattern denotes, to state what the matcher decides: a sequence denotes
  the concatenations, a star the finite repetitions.
\<close>

definition lang_seq :: "js_string set \<Rightarrow> js_string set \<Rightarrow> js_string set" where
  "lang_seq A B = {xs @ ys | xs ys. xs \<in> A \<and> ys \<in> B}"

inductive_set lang_star :: "js_string set \<Rightarrow> js_string set" for A :: "js_string set" where
  none: "[] \<in> lang_star A"
| more: "xs \<in> A \<Longrightarrow> ys \<in> lang_star A \<Longrightarrow> xs @ ys \<in> lang_star A"

fun lang :: "regex \<Rightarrow> js_string set" where
  "lang Never = {}"
| "lang Empty = {[]}"
| "lang (Lit c) = {[of_char c]}"
| "lang (Class neg items) = {[u] | u. in_class u neg items}"
| "lang Dot = {[u] | u. u \<notin> set line_terminator}"
| "lang (Seq r s) = lang_seq (lang r) (lang s)"
| "lang (Alt r s) = lang r \<union> lang s"
| "lang (Star r) = lang_star (lang r)"

text \<open>
  \<open>RegExp.prototype.test\<close> on a pattern \<open>/^r$/\<close> matches the whole string; on a
  pattern \<open>/^r/\<close> it matches a prefix, whatever code units follow.
\<close>

definition test_whole :: "regex \<Rightarrow> js_string \<Rightarrow> bool" where
  "test_whole r s = matches r s"

definition test_prefix :: "regex \<Rightarrow> js_string \<Rightarrow> bool" where
  "test_prefix r s = matches (Seq r (Star (Class True []))) s"

subsection \<open>The three validators\<close>

text \<open>\<^verbatim>\<open>/^(https?:|mailto:|tel:)/\<close>\<close>

definition isExternal_re :: regex where
  "isExternal_re =
     Alt (Seqs [Lit CHR ''h'', Lit CHR ''t'', Lit CHR ''t'', Lit CHR ''p'',
                Opt (Lit CHR ''s''), Lit CHR '':''])
    (Alt (Seqs [Lit CHR ''m'', Lit CHR ''a'', Lit CHR ''i'', Lit CHR ''l'',
                Lit CHR ''t'', Lit CHR ''o'', Lit CHR '':''])
         (Seqs [Lit CHR ''t'', Lit CHR ''e'', Lit CHR ''l'', Lit CHR '':'']))"

definition isExternal :: "js_string \<Rightarrow> bool" where
  "isExternal path = test_prefix isExternal_re path"

text \<open>
  \<^verbatim>\<open>/^(([^<>()\[\]\\.,;:\s@"]+(\.[^<>()\[\]\\.,;:\s@"]+)*)|(".+"))@((\[[0-9]{1,3}\.[0-9]{1,3}\.[0-9]{1,3}\.[0-9]{1,3}])|(([a-zA-Z\-0-9]+\.)+[a-zA-Z]{2,}))$/\<close>
\<close>

definition email_atom :: regex where
  "email_atom = Class True
     [One CHR ''<'', One CHR ''>'', One CHR ''('', One CHR '')'', One CHR ''['', One CHR '']'',
      One (CHR 0x5C), One CHR ''.'', One CHR '','', One CHR '';'', One CHR '':'', Space,
      One CHR ''@'', One (CHR 0x22)]"

definition email_local :: regex where
  "email_local =
     Alt (Seq (Plus email_atom) (Star (Seq (Lit CHR ''.'') (Plus email_atom))))
         (Seqs [Lit (CHR 0x22), Plus Dot, Lit (CHR 0x22)])"

definition email_octet :: regex where
  "email_octet = Between 1 3 (Class False [Range CHR ''0'' CHR ''9''])"

definition email_ip :: regex where
  "email_ip =
     Seqs [Lit CHR ''['', email_octet, Lit CHR ''.'', email_octet, Lit CHR ''.'',
           email_octet, Lit CHR ''.'', email_octet, Lit CHR '']'']"

definition email_domain :: regex where
  "email_domain =
     Seq (Plus (Seq (Plus (Class False [Range CHR ''a'' CHR ''z'', Range CHR ''A'' CHR ''Z'',
                                         One CHR ''-'', Range CHR ''0'' CHR ''9'']))
                    (Lit CHR ''.'')))
         (AtLeast 2 (Class False [Range CHR ''a'' CHR ''z'', Range CHR ''A'' CHR ''Z'']))"

definition validateEmail_re :: regex where
  "validateEmail_re = Seqs [email_local, Lit CHR ''@'', Alt email_ip email_domain]"

definition validateEmail :: "js_string \<Rightarrow> bool" where
  "validateEmail email = test_whole validateEmail_re email"

text \<open>\<^verbatim>\<open>/^\/?([^\\/:*?"<>|]+\/?)+$/\<close>\<close>

definition path_segment_char :: regex where
  "path_segment_char = Class True
     [One (CHR 0x5C), One CHR ''/'', One CHR '':'', One CHR ''*'', One CHR ''?'',
      One (CHR 0x22), One CHR ''<'', One CHR ''>'', One CHR ''|'']"

definition validatePath_re :: regex where
  "validatePath_re =
     Seq (Opt (Lit CHR ''/'')) (Plus (Seq (Plus path_segment_char) (Opt (Lit CHR ''/''))))"

definition validatePath :: "js_string \<Rightarrow> bool" where
  "validatePath path = test_whole validatePath_re path"

section \<open>The task list view (the Task component)\<close>

subsection \<open>Property lookup in an object literal\<close>

text \<open>
  \<open>statusMap[status]\<close> converts the number \<open>status\<close> to a property key with
  ToString and reads that property: an own property of the literal first, then a member
  of \<open>Object.prototype\<close>, and \<open>undefined\<close> when neither has the key. Status codes
  are integers (well inside the range that JavaScript prints in plain decimal).
\<close>

datatype js_value =
    Undefined
  | Str string
  | Inherited string

definition digit_char :: "nat \<Rightarrow> char" where
  "digit_char d = ''0123456789'' ! d"

fun digits10 :: "nat \<Rightarrow> string" where
  "digits10 n = (if n < 10 then [digit_char n] else digits10 (n div 10) @ [digit_char (n mod 10)])"

declare digits10.simps [simp del]

definition number_to_string :: "int \<Rightarrow> string" where
  "number_to_string n = (if n < 0 then CHR ''-'' # digits10 (nat (- n)) else digits10 (nat n))"

definition object_prototype :: "string list" where
  "object_prototype =
     [''constructor'', ''__defineGetter__'', ''__defineSetter__'', ''hasOwnProperty'',
      ''__lookupGetter__'', ''__lookupSetter__'', ''isPrototypeOf'', ''propertyIsEnumerable'',
      ''toString'', ''valueOf'', ''__proto__'', ''toLocaleString'']"

definition get_property :: "(string \<times> string) list \<Rightarrow> string \<Rightarrow> js_value" where
  "get_property obj key =
     (case map_of obj key of
        Some v \<Rightarrow> Str v
      | None \<Rightarrow> if key \<in> set object_prototype then Inherited key else Undefined)"

definition statusTypeMap :: "(string \<times> string) list" where
  "statusTypeMap =
     [(''0'', ''info''),
      (''1'', ''''),
      (''2'', ''success''),
      (''3'', ''danger''),
      (''4'', ''info''),
      (''5'', ''warning''),
      (''6'', ''danger''),
      (''7'', ''warning''),
      (''8'', ''danger'')]"

definition statusTypeFilter :: "int \<Rightarrow> js_value" where
  "statusTypeFilter status = get_property statusTypeMap (number_to_string status)"

definition statusMap :: "(string \<times> string) list" where
  "statusMap =
     [(''0'', ''Scheduled''),
      (''1'', ''Running''),
      (''2'', ''Succeeded''),
      (''3'', ''Failed''),
      (''4'', ''Deleting''),
      (''5'', ''Pending''),
      (''6'', ''TLE''),
      (''7'', ''Waiting''),
      (''8'', ''MLE'')]"

definition statusFilter :: "int \<Rightarrow> js_value" where
  "statusFilter status = get_property statusMap (number_to_string status)"

subsection \<open>The component's data\<close>

record task_settings =
  name :: string

record task =
  uuid :: string
  settings :: task_settings
  user :: string
  create_time :: int
  status :: int

record list_query =
  page :: int
  limit :: int

text \<open>
  The fields of \<open>data()\<close>, and \<open>polling\<close>, the interval handle that \<open>created\<close> stores.
  \<open>list\<close> is \<open>null\<close> (\<open>None\<close>) until the first page arrives. The form \<open>rules\<close>
  are a constant that no method reads and are left out.
\<close>

record state =
  tableKey :: int
  list_v :: "task list option"
  total_v :: int
  listLoading :: bool
  deleteDialogLoading :: bool
  pageSizes :: "int list"
  listQuery :: list_query
  selectedData :: task
  deleteDialogVisible :: bool
  polling :: "nat option"

text \<open>
  \<open>selectedData\<close> starts as \<open>{uuid: ''}\<close>. Only its \<open>uuid\<close> is ever read; the other
  fields of the row it will hold are blank here.
\<close>

definition data :: state where
  "data = \<lparr>tableKey = 0, list_v = None, total_v = 0, listLoading = True,
           deleteDialogLoading = False, pageSizes = [25],
           listQuery = \<lparr>page = 1, limit = 25\<rparr>,
           selectedData = \<lparr>uuid = '''', settings = \<lparr>name = ''''\<rparr>, user = '''',
                           create_time = 0, status = 0\<rparr>,
           deleteDialogVisible = False, polling = None\<rparr>"

subsection \<open>Requests, promises and what the user sees\<close>

text \<open>
  What a method does to the outside: the two requests of \<open>@/api/task\<close> with their
  argument, a \<open>$message\<close> notification, the timer calls and the log window.
\<close>

datatype effect =
    GetTaskList int
  | DeleteTask string
  | Message string string
  | SetInterval nat
  | ClearInterval "nat option"
  | WindowOpen string

record payload =
  entry :: "task list"
  count :: int

record response =
  payload :: payload

datatype reason = Reason string

text \<open>
  A settled promise is \<open>Inr\<close> its value or \<open>Inl\<close> the reason of its rejection.
  \<open>p.then(f)\<close> runs \<open>f\<close> on the value of a fulfilled \<open>p\<close> and skips it when \<open>p\<close> is
  rejected, passing the rejection on; \<open>p.finally(g)\<close> runs \<open>g\<close> in both cases and
  keeps the outcome of \<open>p\<close>.
\<close>

definition promise_then ::
  "reason + 'a \<Rightarrow> ('a \<Rightarrow> state \<Rightarrow> state \<times> effect list) \<Rightarrow> state
     \<Rightarrow> (reason + unit) \<times> state \<times> effect list" where
  "promise_then p f s =
     (case p of
        Inr v \<Rightarrow> (case f v s of (s', out) \<Rightarrow> (Inr (), s', out))
      | Inl e \<Rightarrow> (Inl e, s, []))"

definition promise_finally ::
  "reason + 'a \<Rightarrow> (state \<Rightarrow> state \<times> effect list) \<Rightarrow> state
     \<Rightarrow> (reason + 'a) \<times> state \<times> effect list" where
  "promise_finally p g s = (case g s of (s', out) \<Rightarrow> (p, s', out))"

subsection \<open>Lifecycle hooks and methods\<close>

text \<open>
  A method that starts a request returns at once; its callbacks run when the request
  settles, on the state as it is then. Each method is therefore two functions: the call,
  and \<open>_settled\<close> for the promise chain.
\<close>

definition getList :: "state \<Rightarrow> state \<times> effect list" where
  "getList s = (s, [GetTaskList (page (listQuery s))])"

definition getList_settled :: "reason + response \<Rightarrow> state \<Rightarrow> state \<times> effect list" where
  "getList_settled p s =
     (case promise_then p
             (\<lambda>response s. (s\<lparr>list_v := Some (entry (payload response)),
                               total_v := count (payload response)\<rparr>, [])) s of
        (p1, s1, out1) \<Rightarrow>
          (case promise_finally p1 (\<lambda>s. (s\<lparr>listLoading := False\<rparr>, [])) s1 of
             (p2, s2, out2) \<Rightarrow> (s2, out1 @ out2)))"

text \<open>\<open>created\<close> gets the handle \<open>h\<close> that \<open>window.setInterval\<close> returns.\<close>

definition created :: "nat \<Rightarrow> state \<Rightarrow> state \<times> effect list" where
  "created h s =
     (case getList (s\<lparr>polling := Some h\<rparr>) of
        (s', out) \<Rightarrow> (s', SetInterval (3 * 1000) # out))"

definition beforeDestroy :: "state \<Rightarrow> state \<times> effect list" where
  "beforeDestroy s = (s, [ClearInterval (polling s)])"

text \<open>
  \<open>Object.assign({}, row)\<close> is a new object with the properties of \<open>row\<close>. No
  method writes into a row or into \<open>selectedData\<close> in place (\<open>getList\<close> replaces
  the whole list), so the copy is the row's value.
\<close>

definition handleDelete :: "task \<Rightarrow> state \<Rightarrow> state \<times> effect list" where
  "handleDelete row s = (s\<lparr>selectedData := row, deleteDialogVisible := True\<rparr>, [])"

definition deleteTask :: "state \<Rightarrow> state \<times> effect list" where
  "deleteTask s =
     (s\<lparr>deleteDialogLoading := True\<rparr>, [DeleteTask (uuid (selectedData s))])"

definition deleteTask_settled :: "reason + 'a \<Rightarrow> state \<Rightarrow> state \<times> effect list" where
  "deleteTask_settled p s =
     (case promise_then p (\<lambda>response s. (s, [Message ''Task Deleted'' ''success''])) s of
        (p1, s1, out1) \<Rightarrow>
          (case promise_finally p1
                  (\<lambda>s. (s\<lparr>deleteDialogLoading := False, deleteDialogVisible := False\<rparr>, []))
                  s1 of
             (p2, s2, out2) \<Rightarrow> (s2, out1 @ out2)))"

definition handleLog :: "task \<Rightarrow> state \<Rightarrow> state \<times> effect list" where
  "handleLog row s = (s, [WindowOpen (uuid row)])"

text \<open>The Cancel button of the dialog: \<open>deleteDialogVisible = false\<close>.\<close>

definition cancelDelete :: "state \<Rightarrow> state \<times> effect list" where
  "cancelDelete s = (s\<lparr>deleteDialogVisible := False\<rparr>, [])"

subsection \<open>Runs of the view\<close>

text \<open>
  The event loop runs one callback at a time: a hook, the timer's call of \<open>getList\<close>,
  a click, or the settling of a request with its outcome.
\<close>

datatype event =
    Created nat
  | BeforeDestroy
  | TimerFired
  | TaskListSettled "reason + response"
  | ClickDelete task
  | ClickCancel
  | ClickConfirm
  | DeleteSettled "reason + unit"
  | ClickLog task

fun step :: "event \<Rightarrow> state \<Rightarrow> state \<times> effect list" where
  "step (Created h) s = created h s"
| "step BeforeDestroy s = beforeDestroy s"
| "step TimerFired s = getList s"
| "step (TaskListSettled p) s = getList_settled p s"
| "step (ClickDelete row) s = handleDelete row s"
| "step ClickCancel s = cancelDelete s"
| "step ClickConfirm s = deleteTask s"
| "step (DeleteSettled p) s = deleteTask_settled p s"
| "step (ClickLog row) s = handleLog row s"

fun run :: "event list \<Rightarrow> state \<Rightarrow> state \<times> effect list" where
  "run [] s = (s, [])"
| "run (e # es) s =
     (case step e s of (s1, out1) \<Rightarrow> (case run es s1 of (s2, out2) \<Rightarrow> (s2, out1 @ out2)))"

fun polling_event :: "event \<Rightarrow> bool" where
  "polling_event TimerFired = True"
| "polling_event (TaskListSettled p) = True"
| "polling_event e = False"

fun delete_requests :: "effect list \<Rightarrow> string list" where
  "delete_requests [] = []"
| "delete_requests (DeleteTask u # out) = u # delete_requests out"
| "delete_requests (x # out) = delete_requests out"

fun messages :: "effect list \<Rightarrow> (string \<times> string) list" where
  "messages [] = []"
| "messages (Message m t # out) = (m, t) # messages out"
| "messages (x # out) = messages out"

text \<open>
  What the user sees of a settled delete: the notifications shown and the two flags of
  the dialog.
\<close>

definition visible_outcome ::
  "state \<times> effect list \<Rightarrow> (string \<times> string) list \<times> bool \<times> bool" where
  "visible_outcome r =
     (messages (snd r), deleteDialogLoading (fst r), deleteDialogVisible (fst r))"

section \<open>Properties of the validators\<close>

lemma Exactly_numeral: "Exactly (numeral k) r = Seq r (Exactly (pred_numeral k) r)"
  by (simp add: numeral_eq_Suc)

lemma UpTo_numeral: "UpTo (numeral k) r = Opt (Seq r (UpTo (pred_numeral k) r))"
  by (simp add: numeral_eq_Suc)

lemmas pattern_defs = validateEmail_re_def email_local_def email_atom_def
  email_octet_def email_ip_def email_domain_def validatePath_re_def
  path_segment_char_def isExternal_re_def Plus_def Opt_def Between_def AtLeast_def
  Exactly_numeral UpTo_numeral

lemmas test_defs = test_whole_def test_prefix_def matches_def js_string_def in_class_def
  white_space_def line_terminator_def

subsection \<open>The matcher decides the language of the pattern\<close>

lemma lang_seq_Nil: "[] \<in> lang_seq A B \<longleftrightarrow> [] \<in> A \<and> [] \<in> B"
  by (auto simp: lang_seq_def)

lemma lang_seq_Cons:
  "u # w \<in> lang_seq A B \<longleftrightarrow>
     ([] \<in> A \<and> u # w \<in> B) \<or> (\<exists>xs ys. w = xs @ ys \<and> u # xs \<in> A \<and> ys \<in> B)"
  by (auto simp: lang_seq_def Cons_eq_append_conv)

lemma lang_star_split:
  assumes "z \<in> lang_star A" and "z = u # w"
  shows "\<exists>xs ys. w = xs @ ys \<and> u # xs \<in> A \<and> ys \<in> lang_star A"
  using assms
proof (induction rule: lang_star.induct)
  case none
  then show ?case by simp
next
  case (more xs ys)
  show ?case
  proof (cases xs)
    case Nil
    with more show ?thesis by simp
  next
    case (Cons x xs')
    with more.prems have "x = u" and "w = xs' @ ys" by simp_all
    with Cons more.hyps show ?thesis by blast
  qed
qed

lemma lang_star_Cons:
  "u # w \<in> lang_star A \<longleftrightarrow> (\<exists>xs ys. w = xs @ ys \<and> u # xs \<in> A \<and> ys \<in> lang_star A)"
proof
  assume "u # w \<in> lang_star A"
  then show "\<exists>xs ys. w = xs @ ys \<and> u # xs \<in> A \<and> ys \<in> lang_star A"
    by (rule lang_star_split) simp
next
  assume "\<exists>xs ys. w = xs @ ys \<and> u # xs \<in> A \<and> ys \<in> lang_star A"
  then obtain xs ys where "w = xs @ ys" "u # xs \<in> A" "ys \<in> lang_star A" by blast
  then show "u # w \<in> lang_star A"
    using lang_star.more [of "u # xs" A ys] by simp
qed

lemma nullable_lang: "nullable r \<longleftrightarrow> [] \<in> lang r"
  by (induction r) (auto simp: lang_seq_Nil intro: lang_star.none)

lemma lang_of_seq: "lang (seq r s) = lang_seq (lang r) (lang s)"
  by (cases "(r, s)" rule: seq.cases) (auto simp: lang_seq_def)

lemma lang_of_alt: "lang (alt r s) = lang r \<union> lang s"
  by (cases "(r, s)" rule: alt.cases) auto

lemma lang_seq_member: "w \<in> lang_seq A B \<longleftrightarrow> (\<exists>xs ys. w = xs @ ys \<and> xs \<in> A \<and> ys \<in> B)"
  by (auto simp: lang_seq_def)

lemma deriv_lang: "w \<in> lang (deriv u r) \<longleftrightarrow> u # w \<in> lang r"
proof (induction r arbitrary: w)
  case (Seq r s)
  have rest: "w \<in> lang_seq (lang (deriv u r)) (lang s) \<longleftrightarrow>
                (\<exists>xs ys. w = xs @ ys \<and> u # xs \<in> lang r \<and> ys \<in> lang s)"
    by (simp add: lang_seq_member Seq.IH)
  show ?case
    by (simp add: lang_of_alt lang_of_seq lang_seq_Cons nullable_lang rest Seq.IH) blast
next
  case (Alt r s)
  then show ?case by (simp add: lang_of_alt)
next
  case (Star r)
  have "w \<in> lang_seq (lang (deriv u r)) (lang_star (lang r)) \<longleftrightarrow>
          (\<exists>xs ys. w = xs @ ys \<and> u # xs \<in> lang r \<and> ys \<in> lang_star (lang r))"
    by (simp add: lang_seq_member Star.IH)
  then show ?case
    by (simp add: lang_of_seq lang_star_Cons)
qed auto

lemma matches_lang: "matches r s \<longleftrightarrow> s \<in> lang r"
proof (induction s arbitrary: r)
  case Nil
  show ?case by (simp add: matches_def nullable_lang)
next
  case (Cons u us)
  from Cons [of "deriv u r"] show ?case by (simp add: matches_def deriv_lang)
qed

lemma any_string: "s \<in> lang (Star (Class True []))"
proof (induction s)
  case Nil
  show ?case by (simp add: lang_star.none)
next
  case (Cons u us)
  have a: "[u] \<in> lang (Class True [])" by (simp add: in_class_def)
  have b: "us \<in> lang_star (lang (Class True []))" using Cons by simp
  from lang_star.more [OF a b] show ?case by simp
qed

lemma test_whole_lang: "test_whole r s \<longleftrightarrow> s \<in> lang r"
  by (simp add: test_whole_def matches_lang)

lemma test_prefix_lang: "test_prefix r s \<longleftrightarrow> (\<exists>xs ys. s = xs @ ys \<and> xs \<in> lang r)"
  using any_string by (simp add: test_prefix_def matches_lang lang_seq_member del: lang.simps(4,8))

subsection \<open>A code unit that the pattern cannot read\<close>

lemma may_read_seq: "may_read (seq r s) u \<Longrightarrow> may_read r u \<or> may_read s u"
  by (cases "(r, s)" rule: seq.cases) auto

lemma may_read_alt: "may_read (alt r s) u \<Longrightarrow> may_read r u \<or> may_read s u"
  by (cases "(r, s)" rule: alt.cases) auto

lemma deriv_unread: "\<not> may_read r u \<Longrightarrow> deriv u r = Never"
  by (induction r) auto

lemma may_read_deriv: "may_read (deriv v r) u \<Longrightarrow> may_read r u"
  by (induction r) (auto dest!: may_read_seq may_read_alt split: if_splits)

lemma derivs_Never: "derivs s Never = Never"
  by (induction s) auto

lemma derivs_unread: "u \<in> set s \<Longrightarrow> \<not> may_read r u \<Longrightarrow> derivs s r = Never"
proof (induction s arbitrary: r)
  case Nil
  then show ?case by simp
next
  case (Cons v vs)
  show ?case
  proof (cases "u = v")
    case True
    with Cons.prems show ?thesis by (simp add: deriv_unread derivs_Never)
  next
    case False
    with Cons.prems have "u \<in> set vs" by simp
    moreover from Cons.prems have "\<not> may_read (deriv v r) u"
      using may_read_deriv by blast
    ultimately show ?thesis using Cons.IH by simp
  qed
qed

lemma matches_unread: "u \<in> set s \<Longrightarrow> \<not> may_read r u \<Longrightarrow> \<not> matches r s"
  by (simp add: matches_def derivs_unread)

lemma path_unread:
  "c \<in> set [CHR ''*'', CHR ''?'', CHR 0x22, CHR ''<'', CHR ''>'', CHR ''|'', CHR '':'', CHR 0x5C]
   \<Longrightarrow> \<not> may_read validatePath_re (of_char c)"
  by (auto simp: pattern_defs in_class_def)

subsection \<open>The documented examples\<close>

text \<open>
  Claim C7: \<open>validateEmail\<close> returns true for \<open>a@b.co\<close>, and false for \<open>a@b\<close> (no
  dot-separated top-level domain) and for \<open>a b@c.com\<close> (white space in the local part).
\<close>

theorem validateEmail_examples:
  "validateEmail (js_string ''a@b.co'') \<and> \<not> validateEmail (js_string ''a@b'')
   \<and> \<not> validateEmail (js_string ''a b@c.com'')"
  by (simp add: validateEmail_def pattern_defs test_defs)

text \<open>
  Claim C8: \<open>validatePath\<close> returns true for \<open>/a/b/c\<close>, and false for every string
  that contains one of the characters \<open>*\<close>, \<open>?\<close>, the double quote (0x22), \<open><\<close>,
  \<open>>\<close>, \<open>|\<close>, \<open>:\<close> or the backslash (0x5C).
\<close>

theorem validatePath_accepts_and_rejects:
  "validatePath (js_string ''/a/b/c'') \<and>
   (\<forall>path c. c \<in> set [CHR ''*'', CHR ''?'', CHR 0x22, CHR ''<'', CHR ''>'', CHR ''|'',
                       CHR '':'', CHR 0x5C] \<and> of_char c \<in> set path
      \<longrightarrow> \<not> validatePath path)"
proof (intro conjI allI impI)
  show "validatePath (js_string ''/a/b/c'')"
    by (simp add: validatePath_def pattern_defs test_defs)
next
  fix path :: js_string and c :: char
  assume h: "c \<in> set [CHR ''*'', CHR ''?'', CHR 0x22, CHR ''<'', CHR ''>'', CHR ''|'',
                       CHR '':'', CHR 0x5C] \<and> of_char c \<in> set path"
  then have "\<not> may_read validatePath_re (of_char c)" using path_unread by blast
  moreover from h have "of_char c \<in> set path" by blast
  ultimately have "\<not> matches validatePath_re path" by (rule matches_unread [rotated])
  then show "\<not> validatePath path"
    by (simp add: validatePath_def test_whole_def)
qed

theorem validatePath_accepts_and_rejects_witness:
  "CHR ''*'' \<in> set [CHR ''*'', CHR ''?'', CHR 0x22, CHR ''<'', CHR ''>'', CHR ''|'',
                     CHR '':'', CHR 0x5C]
   \<and> of_char CHR ''*'' \<in> set (js_string ''/a/*.txt'')
   \<and> \<not> validatePath (js_string ''/a/*.txt'')"
proof -
  have h: "CHR ''*'' \<in> set [CHR ''*'', CHR ''?'', CHR 0x22, CHR ''<'', CHR ''>'', CHR ''|'',
                     CHR '':'', CHR 0x5C]
   \<and> of_char CHR ''*'' \<in> set (js_string ''/a/*.txt'')"
    by (simp add: js_string_def)
  with validatePath_accepts_and_rejects show ?thesis by blast
qed

text \<open>
  Claim C9: \<open>isExternal\<close> returns true for \<open>https://x\<close> and false for
  \<open>/local/path\<close>.
\<close>

theorem isExternal_examples:
  "isExternal (js_string ''https://x'') \<and> \<not> isExternal (js_string ''/local/path'')"
  by (simp add: isExternal_def pattern_defs test_defs)

section \<open>Properties of the status filters\<close>

subsection \<open>The decimal key of a status code\<close>

lemma digits10_small: "n < 10 \<Longrightarrow> digits10 n = [digit_char n]"
  by (simp add: digits10.simps)

lemma digits10_large: "10 \<le> n \<Longrightarrow> digits10 n = digits10 (n div 10) @ [digit_char (n mod 10)]"
  by (subst digits10.simps) simp

lemma digits10_nonempty: "digits10 n \<noteq> []"
  by (subst digits10.simps) simp

lemma digits10_long: "10 \<le> n \<Longrightarrow> 2 \<le> length (digits10 n)"
proof -
  assume "10 \<le> n"
  then have "length (digits10 n) = length (digits10 (n div 10)) + 1"
    by (simp add: digits10_large)
  moreover have "1 \<le> length (digits10 (n div 10))"
    using digits10_nonempty [of "n div 10"] by (cases "digits10 (n div 10)") auto
  ultimately show ?thesis by simp
qed

lemma digit_char_is_digit: "d < 10 \<Longrightarrow> digit_char d \<in> set ''0123456789''"
  unfolding digit_char_def by (rule nth_mem) simp

lemma hd_digits10: "hd (digits10 n) \<in> set ''0123456789''"
proof (induction n rule: digits10.induct)
  case (1 n)
  show ?case
  proof (cases "n < 10")
    case True
    then show ?thesis using digit_char_is_digit [of n] by (simp add: digits10_small)
  next
    case False
    then have "hd (digits10 n) = hd (digits10 (n div 10))"
      by (simp add: digits10_large digits10_nonempty)
    with False 1 show ?thesis by simp
  qed
qed

lemma hd_number_to_string: "hd (number_to_string n) \<in> set ''-0123456789''"
  using hd_digits10 [of "nat n"] by (auto simp: number_to_string_def)

text \<open>No member of \<open>Object.prototype\<close> has a name that starts like a number.\<close>

lemma number_to_string_not_inherited: "number_to_string n \<notin> set object_prototype"
proof
  assume "number_to_string n \<in> set object_prototype"
  then have "hd (number_to_string n) \<in> set ''c_hiptv''"
    by (auto simp: object_prototype_def)
  with hd_number_to_string [of n] show False by auto
qed

lemma number_to_string_digit:
  "0 \<le> n \<Longrightarrow> n < 10 \<Longrightarrow> number_to_string n = [digit_char (nat n)]"
  by (simp add: number_to_string_def digits10_small)

lemma number_to_string_not_key:
  assumes "n < 0 \<or> 8 < n"
  shows "number_to_string n \<notin> set [''0'', ''1'', ''2'', ''3'', ''4'', ''5'', ''6'', ''7'', ''8'']"
proof (cases "n < 0")
  case True
  then have "hd (number_to_string n) = CHR ''-''" by (simp add: number_to_string_def)
  then show ?thesis by auto
next
  case False
  with assms have n: "8 < n" by simp
  show ?thesis
  proof (cases "n = 9")
    case True
    then show ?thesis by (simp add: number_to_string_digit digit_char_def)
  next
    case False
    with n have "10 \<le> nat n" by simp
    then have "2 \<le> length (digits10 (nat n))" by (rule digits10_long)
    with n have "2 \<le> length (number_to_string n)" by (simp add: number_to_string_def)
    then show ?thesis by auto
  qed
qed

lemma get_property_undefined:
  "key \<notin> fst ` set obj \<Longrightarrow> key \<notin> set object_prototype \<Longrightarrow> get_property obj key = Undefined"
  by (simp add: get_property_def map_of_eq_None_iff [THEN iffD2])

lemmas status_defs = statusFilter_def statusTypeFilter_def statusMap_def statusTypeMap_def
  get_property_def number_to_string_digit digit_char_def

subsection \<open>Known and unknown codes\<close>

text \<open>
  Claim C4: for each of the nine status codes the label lookup \<open>statusFilter\<close> returns
  the documented label (0 Scheduled, 1 Running, 2 Succeeded, 3 Failed, 4 Deleting,
  5 Pending, 6 TLE, 7 Waiting, 8 MLE) and the severity lookup \<open>statusTypeFilter\<close> the
  documented tag (0 info, 1 the empty string, 2 success, 3 danger, 4 info, 5 warning,
  6 danger, 7 warning, 8 danger).
\<close>

theorem status_known_labels:
  "statusFilter 0 = Str ''Scheduled'' \<and> statusFilter 1 = Str ''Running''
   \<and> statusFilter 2 = Str ''Succeeded'' \<and> statusFilter 3 = Str ''Failed''
   \<and> statusFilter 4 = Str ''Deleting'' \<and> statusFilter 5 = Str ''Pending''
   \<and> statusFilter 6 = Str ''TLE'' \<and> statusFilter 7 = Str ''Waiting''
   \<and> statusFilter 8 = Str ''MLE''
   \<and> statusTypeFilter 0 = Str ''info'' \<and> statusTypeFilter 1 = Str ''''
   \<and> statusTypeFilter 2 = Str ''success'' \<and> statusTypeFilter 3 = Str ''danger''
   \<and> statusTypeFilter 4 = Str ''info'' \<and> statusTypeFilter 5 = Str ''warning''
   \<and> statusTypeFilter 6 = Str ''danger'' \<and> statusTypeFilter 7 = Str ''warning''
   \<and> statusTypeFilter 8 = Str ''danger''"
  by (simp add: status_defs)

text \<open>
  Claim C5: for every status code outside 0..8, \<open>statusFilter\<close> and
  \<open>statusTypeFilter\<close> both return \<open>undefined\<close>: there is no default label or tag.
\<close>

theorem status_unknown_undefined:
  "code < 0 \<or> 8 < code \<Longrightarrow>
     statusFilter code = Undefined \<and> statusTypeFilter code = Undefined"
proof -
  assume h: "code < 0 \<or> 8 < code"
  from number_to_string_not_key [OF h]
  have "number_to_string code \<notin> fst ` set statusMap"
    and "number_to_string code \<notin> fst ` set statusTypeMap"
    by (simp_all add: statusMap_def statusTypeMap_def)
  then show ?thesis
    by (simp add: statusFilter_def statusTypeFilter_def get_property_undefined
        number_to_string_not_inherited)
qed

theorem status_unknown_undefined_witness:
  "((9::int) < 0 \<or> 8 < (9::int)) \<and> statusFilter 9 = Undefined \<and> statusTypeFilter 9 = Undefined
   \<and> ((-1::int) < 0 \<or> 8 < (-1::int)) \<and> statusFilter (-1) = Undefined
   \<and> statusTypeFilter (-1) = Undefined"
proof -
  have a: "(9::int) < 0 \<or> 8 < (9::int)" by simp
  have b: "(-1::int) < 0 \<or> 8 < (-1::int)" by simp
  from a b status_unknown_undefined [OF a] status_unknown_undefined [OF b]
  show ?thesis by blast
qed

section \<open>Properties of the task list view\<close>

subsection \<open>The two promise chains\<close>

lemma getList_settled_fulfilled:
  "getList_settled (Inr r) s =
     (s\<lparr>list_v := Some (entry (payload r)), total_v := count (payload r),
        listLoading := False\<rparr>, [])"
  by (simp add: getList_settled_def promise_then_def promise_finally_def)

lemma getList_settled_rejected:
  "getList_settled (Inl e) s = (s\<lparr>listLoading := False\<rparr>, [])"
  by (simp add: getList_settled_def promise_then_def promise_finally_def)

lemma deleteTask_settled_fulfilled:
  "deleteTask_settled (Inr r) s =
     (s\<lparr>deleteDialogLoading := False, deleteDialogVisible := False\<rparr>,
      [Message ''Task Deleted'' ''success''])"
  by (simp add: deleteTask_settled_def promise_then_def promise_finally_def)

lemma deleteTask_settled_rejected:
  "deleteTask_settled (Inl e) s =
     (s\<lparr>deleteDialogLoading := False, deleteDialogVisible := False\<rparr>, [])"
  by (simp add: deleteTask_settled_def promise_then_def promise_finally_def)

text \<open>
  Claim C1: \<open>getList\<close> requests the current page. When the request succeeds, the list
  becomes the response's \<open>payload.entry\<close> and the total its \<open>payload.count\<close>; when it
  fails, the state (list, total, selected row, dialog flags) stays as it was apart from
  \<open>listLoading\<close>; in both outcomes \<open>listLoading\<close> ends up false.
\<close>

theorem getList_outcomes:
  "getList s = (s, [GetTaskList (page (listQuery s))])
   \<and> getList_settled (Inr r) s =
       (s\<lparr>list_v := Some (entry (payload r)), total_v := count (payload r),
          listLoading := False\<rparr>, [])
   \<and> getList_settled (Inl e) s = (s\<lparr>listLoading := False\<rparr>, [])
   \<and> \<not> listLoading (fst (getList_settled p s))"
proof (intro conjI)
  show "\<not> listLoading (fst (getList_settled p s))"
    by (cases p) (simp_all add: getList_settled_fulfilled getList_settled_rejected)
qed (simp_all add: getList_def getList_settled_fulfilled getList_settled_rejected)

text \<open>
  Claim C2: confirming the delete dialog issues exactly one delete request, for the uuid
  of the row that was selected when the dialog was opened; once the request has settled,
  fulfilled or rejected, \<open>deleteDialogLoading\<close> and \<open>deleteDialogVisible\<close> are both
  false.
\<close>

theorem delete_confirmed:
  "snd (deleteTask s) = [DeleteTask (uuid (selectedData s))]
   \<and> snd (run [ClickDelete row, ClickConfirm] s) = [DeleteTask (uuid row)]
   \<and> delete_requests (snd (run [ClickDelete row, ClickConfirm, DeleteSettled p] s)) = [uuid row]
   \<and> \<not> deleteDialogLoading (fst (run [ClickDelete row, ClickConfirm, DeleteSettled p] s))
   \<and> \<not> deleteDialogVisible (fst (run [ClickDelete row, ClickConfirm, DeleteSettled p] s))
   \<and> \<not> deleteDialogLoading (fst (deleteTask_settled p s))
   \<and> \<not> deleteDialogVisible (fst (deleteTask_settled p s))"
  by (cases p)
     (simp_all add: deleteTask_def handleDelete_def deleteTask_settled_fulfilled
        deleteTask_settled_rejected)

text \<open>
  Claim C3, as stated: a failing delete request and a succeeding one leave the user with
  the same outcome (the success notification shown, the dialog flags cleared). It fails:
  from the initial data, a rejected request shows no notification and a fulfilled one
  shows ``Task Deleted''.
\<close>

theorem delete_failure_differs:
  "visible_outcome (deleteTask_settled (Inl (Reason ''Request failed with status code 500'')) data)
   \<noteq> visible_outcome (deleteTask_settled (Inr ()) data)"
  by (simp add: visible_outcome_def deleteTask_settled_fulfilled deleteTask_settled_rejected)

text \<open>
  Claim C3, amended: the ``Task Deleted'' success notification is shown when the delete
  request succeeds and no notification is shown when it fails; in both outcomes
  \<open>deleteDialogLoading\<close> and \<open>deleteDialogVisible\<close> are set to false and nothing else
  of the state changes.
\<close>

theorem delete_notification:
  "deleteTask_settled (Inr r) s =
     (s\<lparr>deleteDialogLoading := False, deleteDialogVisible := False\<rparr>,
      [Message ''Task Deleted'' ''success''])
   \<and> deleteTask_settled (Inl e) s =
     (s\<lparr>deleteDialogLoading := False, deleteDialogVisible := False\<rparr>, [])"
  by (simp add: deleteTask_settled_fulfilled deleteTask_settled_rejected)

subsection \<open>Polling while the dialog is open\<close>

lemma polling_step_frame:
  "polling_event e \<Longrightarrow>
     selectedData (fst (step e s)) = selectedData s
     \<and> deleteDialogVisible (fst (step e s)) = deleteDialogVisible s
     \<and> deleteDialogLoading (fst (step e s)) = deleteDialogLoading s
     \<and> delete_requests (snd (step e s)) = []"
proof (cases e)
  case (TaskListSettled p)
  then show ?thesis
    by (cases p) (simp_all add: getList_settled_fulfilled getList_settled_rejected)
qed (simp_all add: getList_def)

lemma delete_requests_append:
  "delete_requests (xs @ ys) = delete_requests xs @ delete_requests ys"
  by (induction xs rule: delete_requests.induct) simp_all

lemma run_append:
  "run (es @ fs) s =
     (case run es s of (s1, out1) \<Rightarrow> (case run fs s1 of (s2, out2) \<Rightarrow> (s2, out1 @ out2)))"
  by (induction es arbitrary: s) (simp_all split: prod.splits)

lemma polling_run_frame:
  "list_all polling_event es \<Longrightarrow>
     selectedData (fst (run es s)) = selectedData s
     \<and> deleteDialogVisible (fst (run es s)) = deleteDialogVisible s
     \<and> deleteDialogLoading (fst (run es s)) = deleteDialogLoading s
     \<and> delete_requests (snd (run es s)) = []"
proof (induction es arbitrary: s)
  case Nil
  then show ?case by simp
next
  case (Cons e es)
  obtain s1 out1 where st: "step e s = (s1, out1)" by (cases "step e s")
  obtain s2 out2 where rn: "run es s1 = (s2, out2)" by (cases "run es s1")
  from Cons.prems have "polling_event e" and "list_all polling_event es" by simp_all
  with polling_step_frame [of e s] Cons.IH [of s1] st rn show ?case
    by (simp add: delete_requests_append)
qed

text \<open>
  Claim C10: \<open>getList\<close> changes only the list, the total and \<open>listLoading\<close>; the
  selected row and the two flags of the delete dialog stay as they were. So when the
  timer fires and task lists arrive, in any number and order, between the opening of
  the dialog on a row and its confirmation, the one delete request that is sent
  carries the uuid of that row.
\<close>

theorem getList_frame:
  "fst (getList s) = s
   \<and> fst (getList_settled p s) =
       s\<lparr>list_v := list_v (fst (getList_settled p s)),
         total_v := total_v (fst (getList_settled p s)),
         listLoading := listLoading (fst (getList_settled p s))\<rparr>
   \<and> selectedData (fst (getList_settled p s)) = selectedData s
   \<and> deleteDialogVisible (fst (getList_settled p s)) = deleteDialogVisible s
   \<and> deleteDialogLoading (fst (getList_settled p s)) = deleteDialogLoading s
   \<and> (list_all polling_event es \<longrightarrow>
        delete_requests (snd (run (ClickDelete row # es @ [ClickConfirm]) s)) = [uuid row])"
proof (intro conjI impI)
  assume es: "list_all polling_event es"
  obtain s1 out1 where rn: "run es (fst (handleDelete row s)) = (s1, out1)"
    by (cases "run es (fst (handleDelete row s))")
  from polling_run_frame [OF es, of "fst (handleDelete row s)"] rn
  have "selectedData s1 = row" and "delete_requests out1 = []"
    by (simp_all add: handleDelete_def)
  with rn show "delete_requests (snd (run (ClickDelete row # es @ [ClickConfirm]) s)) = [uuid row]"
    by (simp add: run_append handleDelete_def deleteTask_def delete_requests_append)
qed (cases p; simp add: getList_def getList_settled_fulfilled getList_settled_rejected)+

theorem getList_frame_witness:
  "list_all polling_event
     [TimerFired,
      TaskListSettled (Inr \<lparr>payload = \<lparr>entry = [\<lparr>uuid = ''t-2'', settings = \<lparr>name = ''b''\<rparr>,
         user = ''u'', create_time = 2, status = 1\<rparr>], count = 1\<rparr>\<rparr>),
      TimerFired, TaskListSettled (Inl (Reason ''timeout''))]
   \<and> delete_requests (snd (run
        (ClickDelete \<lparr>uuid = ''t-1'', settings = \<lparr>name = ''a''\<rparr>, user = ''u'',
                      create_time = 1, status = 0\<rparr>
         # [TimerFired,
            TaskListSettled (Inr \<lparr>payload = \<lparr>entry = [\<lparr>uuid = ''t-2'',
               settings = \<lparr>name = ''b''\<rparr>, user = ''u'', create_time = 2, status = 1\<rparr>],
               count = 1\<rparr>\<rparr>),
            TimerFired, TaskListSettled (Inl (Reason ''timeout''))]
         @ [ClickConfirm]) data)) = [''t-1'']"
proof -
  let ?row = "\<lparr>uuid = ''t-1'', settings = \<lparr>name = ''a''\<rparr>, user = ''u'',
               create_time = 1, status = 0\<rparr>"
  let ?es = "[TimerFired,
      TaskListSettled (Inr \<lparr>payload = \<lparr>entry = [\<lparr>uuid = ''t-2'', settings = \<lparr>name = ''b''\<rparr>,
         user = ''u'', create_time = 2, status = 1\<rparr>], count = 1\<rparr>\<rparr>),
      TimerFired, TaskListSettled (Inl (Reason ''timeout''))]"
  have h: "list_all polling_event ?es"
    by simp
  have "list_all polling_event ?es \<longrightarrow>
          delete_requests (snd (run (ClickDelete ?row # ?es @ [ClickConfirm]) data)) = [uuid ?row]"
    using getList_frame [where s = data and es = ?es and row = ?row] by blast
  with h have "delete_requests (snd (run (ClickDelete ?row # ?es @ [ClickConfirm]) data))
                 = [uuid ?row]"
    by blast
  moreover have "uuid ?row = ''t-1''"
    by simp
  ultimately show ?thesis
    using h by (simp only: simp_thms)
qed

subsection \<open>The polling timer\<close>

text \<open>
  \<open>created\<close> asks for a timer that calls \<open>getList\<close> every 3000 ms, keeps its handle
  and fetches the current page once; \<open>beforeDestroy\<close> clears the handle that
  \<open>created\<close> kept.
\<close>

lemma created_then_beforeDestroy:
  "created h s = (s\<lparr>polling := Some h\<rparr>, [SetInterval 3000, GetTaskList (page (listQuery s))])
   \<and> snd (beforeDestroy (fst (created h s))) = [ClearInterval (Some h)]"
  by (simp add: created_def getList_def beforeDestroy_def)

end
